theory Spec2Isabelle
  imports Complex_Main "HOL-Library.Log_Nat"
begin

section \<open>The function \<open>add\<close> of \<open>t.py\<close>\<close>

text \<open>
  The source:
  \<^verbatim>\<open>
  def add(a: int, b: int, k: float) -> float:
      return (a + b) * k
  \<close>
  Python does not enforce the annotations: the body works on whatever numbers it is
  given, so the model is polymorphic in a type that has \<open>+\<close> and \<open>*\<close>. Python's
  unbounded \<open>int\<close> is the HOL type \<open>int\<close>, exact fractions are \<open>rat\<close>. An \<open>int\<close>
  that meets a fraction is promoted exactly (\<open>of_int\<close>) before the operation.
  Python's \<open>float\<close> is no such type (its operations round); a call of \<open>add\<close> on
  Python's own values, floats included, is \<open>call_add\<close> further down.
\<close>

definition add :: "'a::{plus,times} \<Rightarrow> 'a \<Rightarrow> 'a \<Rightarrow> 'a" where
  "add a b k = (a + b) * k"

section \<open>The module body of \<open>t.py\<close>\<close>

text \<open>
  After the definition of \<open>add\<close> the module runs four statements:
  \<^verbatim>\<open>
  print(Runnable.from_pyfn(add))
  s = serialize(add)
  d: Callable[[int, int, float], int] = deserialize(s)
  print(d)
  \<close>
  \<open>Runnable.from_pyfn\<close>, \<open>serialize\<close> and \<open>deserialize\<close> come from the package
  \<open>lize\<close>, whose code is not part of \<open>t.py\<close>. They are parameters of the model: a
  record of functions, each of which returns a value or raises. \<open>print\<close> converts its
  argument with \<open>str\<close>; for an object made by the library that conversion is the
  library's too, so it is a field of the same record and may raise as well.
  The two \<open>import\<close> lines come before these statements; a whole run, imports
  included, is \<open>t_py\<close> further down.
\<close>

text \<open>
  What a statement may raise. The interpreter treats two exceptions on their own when
  they reach the top level, \<open>SystemExit\<close> (with the argument it was made with: none,
  an \<open>int\<close>, or another object, kept as its text) and \<open>KeyboardInterrupt\<close>; \<open>Exn\<close>
  is any other exception, with its name.
\<close>

datatype exit_arg = No_code | Int_code int | Other_code string

datatype error = Exn string | SystemExit exit_arg | KeyboardInterrupt

type_synonym pyfn = "rat \<Rightarrow> rat \<Rightarrow> rat \<Rightarrow> rat"

record ('r, 's, 'd) lize =
  from_pyfn :: "pyfn \<Rightarrow> error + 'r"
  serialize :: "pyfn \<Rightarrow> error + 's"
  deserialize :: "'s \<Rightarrow> error + 'd"
  str_runnable :: "'r \<Rightarrow> error + string"
  str_callable :: "'d \<Rightarrow> error + string"

text \<open>
  What a run does, step by step: the events are recorded in the order in which the
  interpreter performs them.
\<close>

datatype ('r, 's, 'd) event =
    Import string
  | Def pyfn
  | Call_from_pyfn pyfn
  | Call_str_runnable 'r
  | Call_serialize pyfn
  | Call_deserialize 's
  | Call_str_callable 'd
  | Write_stdout string
  | Write_stderr string

text \<open>
  The state of the process: what it was started with (\<open>argv\<close>, \<open>environ\<close>), the
  input not yet read from standard input, the text written to standard output and to
  standard error so far, and the events so far.
\<close>

record ('r, 's, 'd) proc =
  argv :: "string list"
  environ :: "(string \<times> string) list"
  stdin :: string
  stdout :: string
  stderr :: string
  trace :: "('r, 's, 'd) event list"

text \<open>
  A piece of program takes the state and returns the new state together with a value or
  the exception it raised. \<open>and_then\<close> is sequencing: nothing in \<open>t.py\<close> catches
  an exception, so the first one ends the run.
\<close>

type_synonym ('a, 'r, 's, 'd) prog = "('r, 's, 'd) proc \<Rightarrow> (error + 'a) \<times> ('r, 's, 'd) proc"

definition and_then :: "('a, 'r, 's, 'd) prog \<Rightarrow> ('a \<Rightarrow> ('b, 'r, 's, 'd) prog) \<Rightarrow> ('b, 'r, 's, 'd) prog" where
  "and_then m f w = (case m w of (Inl e, w') \<Rightarrow> (Inl e, w') | (Inr x, w') \<Rightarrow> f x w')"

definition log_event :: "('r, 's, 'd) event \<Rightarrow> ('r, 's, 'd) proc \<Rightarrow> ('r, 's, 'd) proc" where
  "log_event ev w = w\<lparr>trace := trace w @ [ev]\<rparr>"

definition def_add :: "(pyfn, 'r, 's, 'd) prog" where
  "def_add w = (Inr add, log_event (Def add) w)"

definition call_lib :: "('r, 's, 'd) event \<Rightarrow> error + 'a \<Rightarrow> ('a, 'r, 's, 'd) prog" where
  "call_lib ev res w = (res, log_event ev w)"

definition write_stdout :: "string \<Rightarrow> (unit, 'r, 's, 'd) prog" where
  "write_stdout t w = (Inr (), log_event (Write_stdout t) (w\<lparr>stdout := stdout w @ t\<rparr>))"

text \<open>
  \<open>print(x)\<close> writes \<open>str(x)\<close> and a newline to standard output. The conversion is
  passed as the event that records it and its result.
\<close>

definition print :: "('r, 's, 'd) event \<Rightarrow> error + string \<Rightarrow> (unit, 'r, 's, 'd) prog" where
  "print ev res = and_then (call_lib ev res) (\<lambda>t. write_stdout (t @ [CHR 0x0A]))"

definition script :: "('r, 's, 'd) lize \<Rightarrow> (unit, 'r, 's, 'd) prog" where
  "script L =
     and_then def_add (\<lambda>f.
     and_then (call_lib (Call_from_pyfn f) (from_pyfn L f)) (\<lambda>r.
     and_then (print (Call_str_runnable r) (str_runnable L r)) (\<lambda>_.
     and_then (call_lib (Call_serialize f) (serialize L f)) (\<lambda>s.
     and_then (call_lib (Call_deserialize s) (deserialize L s)) (\<lambda>d.
     print (Call_str_callable d) (str_callable L d))))))"

section \<open>A run of \<open>t.py\<close> as the main module\<close>

text \<open>
  \<open>python t.py\<close> executes the whole file, which begins with
  \<^verbatim>\<open>
  from typing import Callable
  from lize import serialize, deserialize, Runnable
  \<close>
  and then lets the interpreter end the process. What the surroundings of the script
  contribute is a parameter: whether each import finds and loads its module, the text
  of the traceback the interpreter prints for an exception, the text it prints when
  standard output cannot be flushed, and whether the device behind standard output
  takes the text when it is flushed at the end.
\<close>

record host =
  load_typing :: "error + unit"
  load_lize :: "error + unit"
  traceback :: "error \<Rightarrow> string"
  flush_report :: string
  device_ok :: bool

definition import_from :: "string \<Rightarrow> error + unit \<Rightarrow> (unit, 'r, 's, 'd) prog" where
  "import_from name res w = (res, log_event (Import name) w)"

definition t_py :: "host \<Rightarrow> ('r, 's, 'd) lize \<Rightarrow> (unit, 'r, 's, 'd) prog" where
  "t_py H L =
     and_then (import_from ''typing'' (load_typing H)) (\<lambda>_.
     and_then (import_from ''lize'' (load_lize H)) (\<lambda>_.
     script L))"

text \<open>
  The end of the process, as CPython does it on a 64-bit POSIX system. An exception that
  reaches the top level is reported on standard error, except a \<open>SystemExit\<close> made
  with no argument or with an \<open>int\<close>; a \<open>SystemExit\<close> made with another object
  prints that object. Then standard output is flushed: the text written so far goes to
  the device, and if the device refuses it the interpreter says so on standard error.
\<close>

definition write_stderr :: "string \<Rightarrow> ('r, 's, 'd) proc \<Rightarrow> ('r, 's, 'd) proc" where
  "write_stderr t w = log_event (Write_stderr t) (w\<lparr>stderr := stderr w @ t\<rparr>)"

fun outcome_report :: "host \<Rightarrow> error + unit \<Rightarrow> string option" where
  "outcome_report H (Inr u) = None"
| "outcome_report H (Inl (SystemExit No_code)) = None"
| "outcome_report H (Inl (SystemExit (Int_code n))) = None"
| "outcome_report H (Inl (SystemExit (Other_code t))) = Some (t @ [CHR 0x0A])"
| "outcome_report H (Inl (Exn x)) = Some (traceback H (Exn x))"
| "outcome_report H (Inl KeyboardInterrupt) = Some (traceback H KeyboardInterrupt)"

definition report :: "host \<Rightarrow> error + unit \<Rightarrow> ('r, 's, 'd) proc \<Rightarrow> ('r, 's, 'd) proc" where
  "report H res w = (case outcome_report H res of None \<Rightarrow> w | Some t \<Rightarrow> write_stderr t w)"

definition finalize :: "host \<Rightarrow> ('r, 's, 'd) proc \<Rightarrow> bool \<times> ('r, 's, 'd) proc" where
  "finalize H w =
     (if stdout w = [] \<or> device_ok H then (True, w)
      else (False, write_stderr (flush_report H) w))"

text \<open>
  The exit status. \<open>SystemExit\<close> gives the status it carries: \<open>0\<close> for no argument,
  the low eight bits of an \<open>int\<close> that fits a C \<open>long\<close> and \<open>255\<close> of one that does
  not, \<open>1\<close> for another object. Any other exception gives \<open>1\<close>, a normal end \<open>0\<close>.
  A failed flush turns each of these into \<open>120\<close>. After a \<open>KeyboardInterrupt\<close> the
  interpreter ends the process with the signal \<open>SIGINT\<close> (number \<open>2\<close>), whatever the
  flush did.
\<close>

datatype status = Exited nat | Killed nat

fun exit_code :: "exit_arg \<Rightarrow> nat" where
  "exit_code No_code = 0"
| "exit_code (Int_code n) = (if - (2 ^ 63) \<le> n \<and> n < 2 ^ 63 then nat (n mod 256) else 255)"
| "exit_code (Other_code t) = 1"

fun exit_status :: "bool \<Rightarrow> error + unit \<Rightarrow> status" where
  "exit_status ok (Inl KeyboardInterrupt) = Killed 2"
| "exit_status ok (Inl (SystemExit c)) = Exited (if ok then exit_code c else 120)"
| "exit_status ok (Inl (Exn x)) = Exited (if ok then 1 else 120)"
| "exit_status ok (Inr u) = Exited (if ok then 0 else 120)"

definition run :: "host \<Rightarrow> ('r, 's, 'd) lize \<Rightarrow> ('r, 's, 'd) proc \<Rightarrow> status \<times> ('r, 's, 'd) proc" where
  "run H L w =
     (case t_py H L w of (res, w1) \<Rightarrow>
        (case finalize H (report H res w1) of (ok, w2) \<Rightarrow> (exit_status ok res, w2)))"

text \<open>
  What a list of events wrote to each of the two streams.
\<close>

fun out_text :: "('r, 's, 'd) event \<Rightarrow> string" where
  "out_text (Write_stdout t) = t"
| "out_text ev = []"

fun err_text :: "('r, 's, 'd) event \<Rightarrow> string" where
  "err_text (Write_stderr t) = t"
| "err_text ev = []"

section \<open>A call of \<open>add\<close> on Python's values\<close>

text \<open>
  The values a call of \<open>add\<close> is given: an \<open>int\<close> (unbounded; \<open>bool\<close> is an
  \<open>int\<close>), a \<open>float\<close>, or \<open>None\<close> for a value that is no number. A \<open>float\<close> is an
  IEEE 754 binary64 value: finite (a sign and a magnitude, so that \<open>-0.0\<close> is a value
  of its own), infinite, or NaN. The sign is \<open>True\<close> for minus.
\<close>

datatype pyfloat = Float_fin bool rat | Float_inf bool | Float_nan

datatype pyval = PInt int | PFloat pyfloat | PNone

text \<open>
  Rounding a magnitude to binary64, to nearest with ties to even: 53 significant bits,
  the least exponent \<open>-1022\<close> (below it the spacing stays \<open>2 ^ -1074\<close>), and infinity
  from \<open>2 ^ 1024\<close> on. \<open>log2_floor q\<close> is the \<open>e\<close> with \<open>2 ^ e \<le> q < 2 ^ (e + 1)\<close>.
\<close>

definition pow2 :: "int \<Rightarrow> rat" where
  "pow2 e = (if 0 \<le> e then 2 ^ nat e else 1 / 2 ^ nat (- e))"

definition log2_floor :: "rat \<Rightarrow> int" where
  "log2_floor q = (case quotient_of q of (n, d) \<Rightarrow>
     (let e = bitlen n - bitlen d in if pow2 e \<le> q then e else e - 1))"

definition round_even :: "rat \<Rightarrow> int" where
  "round_even x = (let f = \<lfloor>x\<rfloor>; r = x - of_int f in
     if r < 1 / 2 then f else if 1 / 2 < r \<or> odd f then f + 1 else f)"

definition float_round :: "bool \<Rightarrow> rat \<Rightarrow> pyfloat" where
  "float_round s q =
     (if q = 0 then Float_fin s 0
      else let u = pow2 (max (log2_floor q) (- 1022) - 52);
               v = of_int (round_even (q / u)) * u
           in if 2 ^ 1024 \<le> v then Float_inf s else Float_fin s v)"

text \<open>
  An \<open>int\<close> that meets a \<open>float\<close> is converted first. The conversion rounds, and
  raises \<open>OverflowError\<close> when the result would not be finite.
\<close>

definition float_of_int :: "int \<Rightarrow> error + pyfloat" where
  "float_of_int n =
     (if \<bar>n\<bar> < 2 ^ 1024 - 2 ^ 970 then Inr (float_round (n < 0) (of_int \<bar>n\<bar>))
      else Inl (Exn ''OverflowError''))"

fun float_add :: "pyfloat \<Rightarrow> pyfloat \<Rightarrow> pyfloat" where
  "float_add Float_nan y = Float_nan"
| "float_add x Float_nan = Float_nan"
| "float_add (Float_inf s) (Float_inf t) = (if s = t then Float_inf s else Float_nan)"
| "float_add (Float_inf s) (Float_fin t n) = Float_inf s"
| "float_add (Float_fin s m) (Float_inf t) = Float_inf t"
| "float_add (Float_fin s m) (Float_fin t n) =
     (let v = (if s then - m else m) + (if t then - n else n)
      in if v = 0 then Float_fin (s \<and> t) 0 else float_round (v < 0) \<bar>v\<bar>)"

fun float_mul :: "pyfloat \<Rightarrow> pyfloat \<Rightarrow> pyfloat" where
  "float_mul Float_nan y = Float_nan"
| "float_mul x Float_nan = Float_nan"
| "float_mul (Float_inf s) (Float_inf t) = Float_inf (s \<noteq> t)"
| "float_mul (Float_inf s) (Float_fin t n) = (if n = 0 then Float_nan else Float_inf (s \<noteq> t))"
| "float_mul (Float_fin s m) (Float_inf t) = (if m = 0 then Float_nan else Float_inf (s \<noteq> t))"
| "float_mul (Float_fin s m) (Float_fin t n) = float_round (s \<noteq> t) (m * n)"

text \<open>
  Python's \<open>+\<close> and \<open>*\<close> on these values: exact on two \<open>int\<close>s, in floating point as
  soon as one operand is a \<open>float\<close>, and \<open>TypeError\<close> when an operand is \<open>None\<close>.
\<close>

fun py_add :: "pyval \<Rightarrow> pyval \<Rightarrow> error + pyval" where
  "py_add (PInt x) (PInt y) = Inr (PInt (x + y))"
| "py_add (PInt x) (PFloat y) =
     (case float_of_int x of Inl e \<Rightarrow> Inl e | Inr x' \<Rightarrow> Inr (PFloat (float_add x' y)))"
| "py_add (PFloat x) (PInt y) =
     (case float_of_int y of Inl e \<Rightarrow> Inl e | Inr y' \<Rightarrow> Inr (PFloat (float_add x y')))"
| "py_add (PFloat x) (PFloat y) = Inr (PFloat (float_add x y))"
| "py_add x y = Inl (Exn ''TypeError'')"

fun py_mul :: "pyval \<Rightarrow> pyval \<Rightarrow> error + pyval" where
  "py_mul (PInt x) (PInt y) = Inr (PInt (x * y))"
| "py_mul (PInt x) (PFloat y) =
     (case float_of_int x of Inl e \<Rightarrow> Inl e | Inr x' \<Rightarrow> Inr (PFloat (float_mul x' y)))"
| "py_mul (PFloat x) (PInt y) =
     (case float_of_int y of Inl e \<Rightarrow> Inl e | Inr y' \<Rightarrow> Inr (PFloat (float_mul x y')))"
| "py_mul (PFloat x) (PFloat y) = Inr (PFloat (float_mul x y))"
| "py_mul x y = Inl (Exn ''TypeError'')"

text \<open>
  The operators of these built-in types work on their two operands and on nothing
  else. The body of \<open>add\<close>, \<open>return (a + b) * k\<close>, evaluates \<open>a + b\<close>, then the
  product of that sum and \<open>k\<close>, and the first operator that raises ends the call.
\<close>

definition binary_op ::
  "(pyval \<Rightarrow> pyval \<Rightarrow> error + pyval) \<Rightarrow> pyval \<Rightarrow> pyval \<Rightarrow> (pyval, 'r, 's, 'd) prog" where
  "binary_op f x y w = (f x y, w)"

definition call_add :: "pyval \<Rightarrow> pyval \<Rightarrow> pyval \<Rightarrow> (pyval, 'r, 's, 'd) prog" where
  "call_add a b k = and_then (binary_op py_add a b) (\<lambda>t. binary_op py_mul t k)"

text \<open>
  One behaviour the library may have, and a process at its start, at which the general
  statements below are instantiated: every call returns, the serialized form of a
  function is its name, and the two conversions give fixed texts.
\<close>

definition sample_lize :: "(pyfn, string, pyfn) lize" where
  "sample_lize =
     \<lparr>from_pyfn = (\<lambda>f. Inr f),
      serialize = (\<lambda>f. Inr ''add''),
      deserialize = (\<lambda>s. Inr add),
      str_runnable = (\<lambda>r. Inr ''Runnable''),
      str_callable = (\<lambda>d. Inr ''function'')\<rparr>"

definition sample_host :: host where
  "sample_host =
     \<lparr>load_typing = Inr (), load_lize = Inr (),
      traceback = (\<lambda>e. ''Traceback''), flush_report = ''Exception ignored'',
      device_ok = True\<rparr>"

definition proc0 :: "(pyfn, string, pyfn) proc" where
  "proc0 = \<lparr>argv = [''t.py''], environ = [], stdin = [], stdout = [], stderr = [],
     trace = []\<rparr>"

section \<open>Properties of \<open>add\<close>\<close>

text \<open>
  The call as annotated, with integers \<open>a\<close>, \<open>b\<close> and a multiplier of another exact
  numeric type: Python adds the two integers first and promotes the sum; promoting the
  arguments first gives the same number.
\<close>

lemma add_promote: "add (of_int a) (of_int b) (k::'a::ring_1) = of_int (a + b) * k"
  by (simp add: add_def)

text \<open>
  C1. For all numeric \<open>a\<close>, \<open>b\<close>, \<open>k\<close> the value returned by \<open>add\<close> is
  \<open>(a + b) * k\<close>.
\<close>

theorem add_value: "add a b k = (a + b) * k"
  by (simp add: add_def)

text \<open>
  C9. \<open>add\<close> is commutative in its first two arguments.
\<close>

theorem add_commute_args: "add a b k = add b a (k::'a::{ab_semigroup_add,times})"
  by (simp add: add_def add.commute)

text \<open>
  C10. Over the rationals \<open>add\<close> distributes over its multiplier, and the multiplier
  \<open>1\<close> gives the plain sum.
\<close>

theorem add_linear_rat: "add a b k = a * k + b * k \<and> add a b 1 = a + (b::rat)"
  by (simp add: add_def distrib_right)

section \<open>Properties of the module body\<close>

text \<open>
  The run written out: one branch for each call that may raise, with the state the run
  leaves behind.
\<close>

lemmas prog_defs = script_def and_then_def def_add_def call_lib_def print_def write_stdout_def log_event_def

lemma script_unfold:
  "script L w =
     (case from_pyfn L add of
        Inl e \<Rightarrow> (Inl e, w\<lparr>trace := trace w @ [Def add, Call_from_pyfn add]\<rparr>)
      | Inr r \<Rightarrow>
         (case str_runnable L r of
            Inl e \<Rightarrow> (Inl e, w\<lparr>trace := trace w @ [Def add, Call_from_pyfn add, Call_str_runnable r]\<rparr>)
          | Inr t1 \<Rightarrow>
             (case serialize L add of
                Inl e \<Rightarrow> (Inl e, w\<lparr>stdout := stdout w @ t1 @ [CHR 0x0A],
                  trace := trace w @ [Def add, Call_from_pyfn add, Call_str_runnable r,
                    Write_stdout (t1 @ [CHR 0x0A]), Call_serialize add]\<rparr>)
              | Inr s \<Rightarrow>
                 (case deserialize L s of
                    Inl e \<Rightarrow> (Inl e, w\<lparr>stdout := stdout w @ t1 @ [CHR 0x0A],
                      trace := trace w @ [Def add, Call_from_pyfn add, Call_str_runnable r,
                        Write_stdout (t1 @ [CHR 0x0A]), Call_serialize add, Call_deserialize s]\<rparr>)
                  | Inr d \<Rightarrow>
                     (case str_callable L d of
                        Inl e \<Rightarrow> (Inl e, w\<lparr>stdout := stdout w @ t1 @ [CHR 0x0A],
                          trace := trace w @ [Def add, Call_from_pyfn add, Call_str_runnable r,
                            Write_stdout (t1 @ [CHR 0x0A]), Call_serialize add, Call_deserialize s,
                            Call_str_callable d]\<rparr>)
                      | Inr t2 \<Rightarrow> (Inr (), w\<lparr>stdout := stdout w @ t1 @ [CHR 0x0A] @ t2 @ [CHR 0x0A],
                          trace := trace w @ [Def add, Call_from_pyfn add, Call_str_runnable r,
                            Write_stdout (t1 @ [CHR 0x0A]), Call_serialize add, Call_deserialize s,
                            Call_str_callable d, Write_stdout (t2 @ [CHR 0x0A])]\<rparr>))))))"
  by (simp add: prog_defs split: sum.splits)

text \<open>
  C2. A run that reaches the end of the module has written two lines to standard
  output and nothing else: the text of the \<open>Runnable\<close> made from \<open>add\<close>, then the
  text of the callable that \<open>deserialize\<close> returned, each followed by a newline.
\<close>

theorem script_output:
  assumes "script L w = (Inr (), w')"
  shows "\<exists>r t1 s d t2.
           from_pyfn L add = Inr r \<and> str_runnable L r = Inr t1 \<and>
           serialize L add = Inr s \<and> deserialize L s = Inr d \<and> str_callable L d = Inr t2 \<and>
           stdout w' = stdout w @ t1 @ [CHR 0x0A] @ t2 @ [CHR 0x0A]"
  using assms by (auto simp: script_unfold split: sum.splits)

theorem script_output_witness:
  "fst (script sample_lize proc0) = Inr () \<and>
   stdout (snd (script sample_lize proc0)) = ''Runnable'' @ [CHR 0x0A] @ ''function'' @ [CHR 0x0A]"
proof -
  let ?w = "snd (script sample_lize proc0)"
  have run: "script sample_lize proc0 = (Inr (), ?w)"
    by (simp add: script_unfold sample_lize_def)
  from script_output [OF run]
  obtain r t1 s d t2 where
    calls: "from_pyfn sample_lize add = Inr r" "str_runnable sample_lize r = Inr t1"
      "serialize sample_lize add = Inr s" "deserialize sample_lize s = Inr d"
      "str_callable sample_lize d = Inr t2"
    and out: "stdout ?w = stdout proc0 @ t1 @ [CHR 0x0A] @ t2 @ [CHR 0x0A]"
    by blast
  from calls have "t1 = ''Runnable''" "t2 = ''function''"
    by (simp_all add: sample_lize_def)
  with out have "stdout ?w = ''Runnable'' @ [CHR 0x0A] @ ''function'' @ [CHR 0x0A]"
    by (simp add: proc0_def)
  moreover from run have "fst (script sample_lize proc0) = Inr ()"
    by (rule arg_cong [where f = fst, THEN trans]) simp
  ultimately show ?thesis
    by blast
qed

text \<open>
  C7. A complete run performs, in this order: the definition of \<open>add\<close>; the wrapping
  of \<open>add\<close> and the printing of the wrapper; the serialization of \<open>add\<close>; the
  deserialization of the value that \<open>serialize\<close> returned; the printing of the
  result. In every run, complete or not, \<open>deserialize\<close> is called on nothing but the
  value \<open>serialize\<close> returned for \<open>add\<close>.
\<close>

theorem script_order:
  "(script L w = (Inr (), w') \<longrightarrow>
     (\<exists>r t1 s d t2.
        from_pyfn L add = Inr r \<and> str_runnable L r = Inr t1 \<and>
        serialize L add = Inr s \<and> deserialize L s = Inr d \<and> str_callable L d = Inr t2 \<and>
        trace w' = trace w @
          [Def add, Call_from_pyfn add, Call_str_runnable r, Write_stdout (t1 @ [CHR 0x0A]),
           Call_serialize add, Call_deserialize s, Call_str_callable d,
           Write_stdout (t2 @ [CHR 0x0A])])) \<and>
   (\<exists>evs. trace (snd (script L w)) = trace w @ evs \<and>
      (\<forall>x. Call_deserialize x \<in> set evs \<longrightarrow> serialize L add = Inr x))"
  by (auto simp: script_unfold split: sum.splits)

theorem script_order_witness:
  "trace (snd (script sample_lize proc0)) =
     [Def add, Call_from_pyfn add, Call_str_runnable add, Write_stdout (''Runnable'' @ [CHR 0x0A]),
      Call_serialize add, Call_deserialize ''add'', Call_str_callable add,
      Write_stdout (''function'' @ [CHR 0x0A])] \<and>
   serialize sample_lize add = Inr ''add''"
proof -
  let ?w = "snd (script sample_lize proc0)"
  have run: "script sample_lize proc0 = (Inr (), ?w)"
    by (simp add: script_unfold sample_lize_def)
  from script_order [of sample_lize proc0 ?w] run
  obtain r t1 s d t2 where
    calls: "from_pyfn sample_lize add = Inr r" "str_runnable sample_lize r = Inr t1"
      "serialize sample_lize add = Inr s" "deserialize sample_lize s = Inr d"
      "str_callable sample_lize d = Inr t2"
    and tr: "trace ?w = trace proc0 @
      [Def add, Call_from_pyfn add, Call_str_runnable r, Write_stdout (t1 @ [CHR 0x0A]),
       Call_serialize add, Call_deserialize s, Call_str_callable d,
       Write_stdout (t2 @ [CHR 0x0A])]"
    by blast
  from script_order [of sample_lize proc0 ?w]
  obtain evs where evs: "trace ?w = trace proc0 @ evs"
    and only: "\<forall>x. Call_deserialize x \<in> set evs \<longrightarrow> serialize sample_lize add = Inr x"
    by blast
  from calls have vals: "r = add" "t1 = ''Runnable''" "s = ''add''" "d = add" "t2 = ''function''"
    by (simp_all add: sample_lize_def)
  from tr evs have "Call_deserialize s \<in> set evs"
    by simp
  with only vals have "serialize sample_lize add = Inr ''add''"
    by simp
  with tr vals show ?thesis
    by (simp add: proc0_def)
qed

text \<open>
  C6. Two runs that differ in \<open>argv\<close> and in the environment only, with the same
  behaviour of the library, give the same result, the same events and the same output.
\<close>

theorem script_argv_environ:
  "script L (w\<lparr>argv := av, environ := ev\<rparr>) =
     (fst (script L w), (snd (script L w))\<lparr>argv := av, environ := ev\<rparr>)"
  by (simp add: script_unfold split: sum.splits)

section \<open>Properties of a run\<close>

text \<open>
  The two imports come first; after them the run is that of the module body.
\<close>

lemma t_py_unfold:
  "t_py H L w =
     (case load_typing H of
        Inl e \<Rightarrow> (Inl e, w\<lparr>trace := trace w @ [Import ''typing'']\<rparr>)
      | Inr u \<Rightarrow>
         (case load_lize H of
            Inl e \<Rightarrow> (Inl e, w\<lparr>trace := trace w @ [Import ''typing'', Import ''lize'']\<rparr>)
          | Inr v \<Rightarrow> script L (w\<lparr>trace := trace w @ [Import ''typing'', Import ''lize'']\<rparr>)))"
  by (simp add: t_py_def and_then_def import_from_def log_event_def split: sum.splits)




lemma t_py_update:
  "t_py H L (w\<lparr>argv := av, environ := ev, stdin := i\<rparr>) =
     (fst (t_py H L w), (snd (t_py H L w))\<lparr>argv := av, environ := ev, stdin := i\<rparr>)"
  by (simp add: t_py_unfold script_unfold split: sum.splits)

lemma t_py_frame:
  "argv (snd (t_py H L w)) = argv w \<and> environ (snd (t_py H L w)) = environ w \<and>
   stdin (snd (t_py H L w)) = stdin w \<and> stderr (snd (t_py H L w)) = stderr w"
  by (simp add: t_py_unfold script_unfold split: sum.splits)

lemma t_py_trace:
  "\<exists>evs. trace (snd (t_py H L w)) = trace w @ evs \<and>
     stdout (snd (t_py H L w)) = stdout w @ concat (map out_text evs) \<and>
     concat (map err_text evs) = []"
  by (simp add: t_py_unfold script_unfold split: sum.splits)

lemma run_unfold:
  "run H L w =
     (exit_status (stdout (snd (t_py H L w)) = [] \<or> device_ok H) (fst (t_py H L w)),
      (snd (t_py H L w))
        \<lparr>stderr := stderr w
           @ (case outcome_report H (fst (t_py H L w)) of None \<Rightarrow> [] | Some t \<Rightarrow> t)
           @ (if stdout (snd (t_py H L w)) = [] \<or> device_ok H then [] else flush_report H),
         trace := trace (snd (t_py H L w))
           @ (case outcome_report H (fst (t_py H L w)) of None \<Rightarrow> [] | Some t \<Rightarrow> [Write_stderr t])
           @ (if stdout (snd (t_py H L w)) = [] \<or> device_ok H then []
              else [Write_stderr (flush_report H)])\<rparr>)"
  using t_py_frame [of H L w]
  by (cases "t_py H L w")
    (auto simp: run_def finalize_def report_def write_stderr_def log_event_def
      split: option.splits)

lemma t_py_stdout:
  "\<exists>out. stdout (snd (t_py H L w)) = stdout w @ out \<and>
      (out = [] \<or>
       (\<exists>r t1. from_pyfn L add = Inr r \<and> str_runnable L r = Inr t1 \<and>
          (out = t1 @ [CHR 0x0A] \<or>
           (\<exists>s d t2. serialize L add = Inr s \<and> deserialize L s = Inr d \<and>
              str_callable L d = Inr t2 \<and> out = t1 @ [CHR 0x0A] @ t2 @ [CHR 0x0A]))))"
  by (auto simp: t_py_unfold script_unfold split: sum.splits)




text \<open>
  C3, as amended. Apart from the loading of the two imported modules, the line each
  \<open>print\<close> call writes to standard output, and what the interpreter writes to standard
  error when a run ends with an exception or standard output cannot be flushed, a run
  does no input or output. \<open>argv\<close>, the environment and standard input are neither
  read (other values of them give the same run) nor changed; standard output grows by
  nothing, by the first line, or by both lines; standard error grows by the
  interpreter's report and nothing else; and every text written is one of the write
  events of the run.
\<close>

theorem run_io:
  "run H L (w\<lparr>argv := av, environ := ev, stdin := i\<rparr>) =
     (fst (run H L w), (snd (run H L w))\<lparr>argv := av, environ := ev, stdin := i\<rparr>) \<and>
   argv (snd (run H L w)) = argv w \<and>
   environ (snd (run H L w)) = environ w \<and>
   stdin (snd (run H L w)) = stdin w \<and>
   (\<exists>evs. trace (snd (run H L w)) = trace w @ evs \<and>
      stdout (snd (run H L w)) = stdout w @ concat (map out_text evs) \<and>
      stderr (snd (run H L w)) = stderr w @ concat (map err_text evs)) \<and>
   (\<exists>out. stdout (snd (run H L w)) = stdout w @ out \<and>
      (out = [] \<or>
       (\<exists>r t1. from_pyfn L add = Inr r \<and> str_runnable L r = Inr t1 \<and>
          (out = t1 @ [CHR 0x0A] \<or>
           (\<exists>s d t2. serialize L add = Inr s \<and> deserialize L s = Inr d \<and>
              str_callable L d = Inr t2 \<and> out = t1 @ [CHR 0x0A] @ t2 @ [CHR 0x0A]))))) \<and>
   stderr (snd (run H L w)) = stderr w
     @ (case outcome_report H (fst (t_py H L w)) of None \<Rightarrow> [] | Some t \<Rightarrow> t)
     @ (if stdout (snd (t_py H L w)) = [] \<or> device_ok H then [] else flush_report H)"
proof -
  obtain evs where evs: "trace (snd (t_py H L w)) = trace w @ evs"
      "stdout (snd (t_py H L w)) = stdout w @ concat (map out_text evs)"
      "concat (map err_text evs) = []"
    using t_py_trace [of H L w] by blast
  define re :: "('a, 'b, 'c) event list" where
    "re = (case outcome_report H (fst (t_py H L w)) of None \<Rightarrow> [] | Some t \<Rightarrow> [Write_stderr t])"
  define fe :: "('a, 'b, 'c) event list" where
    "fe = (if stdout (snd (t_py H L w)) = [] \<or> device_ok H then []
           else [Write_stderr (flush_report H)])"
  have r: "concat (map out_text re) = []"
      "concat (map err_text re) =
         (case outcome_report H (fst (t_py H L w)) of None \<Rightarrow> [] | Some t \<Rightarrow> t)"
    unfolding re_def by (cases "outcome_report H (fst (t_py H L w))"; simp)+
  have f: "concat (map out_text fe) = []"
      "concat (map err_text fe) =
         (if stdout (snd (t_py H L w)) = [] \<or> device_ok H then [] else flush_report H)"
    unfolding fe_def by simp_all
  have tr: "trace (snd (run H L w)) = trace (snd (t_py H L w)) @ re @ fe"
    by (simp add: run_unfold re_def fe_def)
  have so: "stdout (snd (run H L w)) = stdout (snd (t_py H L w))"
    by (simp add: run_unfold)
  have se: "stderr (snd (run H L w)) =
      stderr w @ concat (map err_text re) @ concat (map err_text fe)"
    unfolding r f by (simp add: run_unfold)
  have "trace (snd (run H L w)) = trace w @ (evs @ re @ fe)"
    using tr evs(1) by simp
  moreover have "stdout (snd (run H L w)) = stdout w @ concat (map out_text (evs @ re @ fe))"
    using so evs(2) r(1) f(1) by simp
  moreover have "stderr (snd (run H L w)) = stderr w @ concat (map err_text (evs @ re @ fe))"
    using se evs(3) by simp
  ultimately have events: "\<exists>evs. trace (snd (run H L w)) = trace w @ evs \<and>
      stdout (snd (run H L w)) = stdout w @ concat (map out_text evs) \<and>
      stderr (snd (run H L w)) = stderr w @ concat (map err_text evs)"
    by blast
  have update: "run H L (w\<lparr>argv := av, environ := ev, stdin := i\<rparr>) =
     (fst (run H L w), (snd (run H L w))\<lparr>argv := av, environ := ev, stdin := i\<rparr>)"
    by (simp add: run_unfold t_py_update)
  have frame: "argv (snd (run H L w)) = argv w" "environ (snd (run H L w)) = environ w"
      "stdin (snd (run H L w)) = stdin w"
    using t_py_frame [of H L w] by (simp_all add: run_unfold)
  have err: "stderr (snd (run H L w)) = stderr w
     @ (case outcome_report H (fst (t_py H L w)) of None \<Rightarrow> [] | Some t \<Rightarrow> t)
     @ (if stdout (snd (t_py H L w)) = [] \<or> device_ok H then [] else flush_report H)"
    by (simp add: run_unfold)
  have out: "\<exists>out. stdout (snd (run H L w)) = stdout w @ out \<and>
      (out = [] \<or>
       (\<exists>r t1. from_pyfn L add = Inr r \<and> str_runnable L r = Inr t1 \<and>
          (out = t1 @ [CHR 0x0A] \<or>
           (\<exists>s d t2. serialize L add = Inr s \<and> deserialize L s = Inr d \<and>
              str_callable L d = Inr t2 \<and> out = t1 @ [CHR 0x0A] @ t2 @ [CHR 0x0A]))))"
    unfolding so by (rule t_py_stdout)
  from update frame events out err show ?thesis
    by blast
qed

text \<open>
  C3 as it was stated, that a run does no input or output at all, fails: a complete run
  leaves text on standard output and has loaded the module \<open>lize\<close>, and a run in which
  \<open>serialize\<close> raises leaves text on standard error.
\<close>

theorem run_writes:
  "stdout (snd (run sample_host sample_lize proc0)) \<noteq> stdout proc0 \<and>
   stderr (snd (run sample_host
       (sample_lize\<lparr>serialize := (\<lambda>f. Inl (Exn ''ValueError''))\<rparr>) proc0)) \<noteq> stderr proc0 \<and>
   Import ''lize'' \<in> set (trace (snd (run sample_host sample_lize proc0)))"
  by (simp add: run_unfold t_py_unfold script_unfold sample_host_def sample_lize_def proc0_def)

section \<open>Properties of a call of \<open>add\<close>\<close>

text \<open>
  Two checks of the rounding: \<open>log2_floor\<close> gives the binary exponent, and the call
  \<open>add(1, 2, 0.1)\<close> returns \<open>0.30000000000000004\<close>, both floats written as the
  fractions they are.
\<close>

lemma pow2_powi: "pow2 e = 2 powi e"
  by (simp add: pow2_def power_int_def inverse_eq_divide power_one_over)

lemma pow2_pos: "0 < pow2 e"
  by (simp add: pow2_powi)

lemma log2_floor_bounds:
  assumes "0 < q"
  shows "pow2 (log2_floor q) \<le> q \<and> q < pow2 (log2_floor q + 1)"
proof -
  obtain n d where nd: "quotient_of q = (n, d)"
    by (cases "quotient_of q")
  then have d: "0 < d" and q: "q = of_int n / of_int d"
    by (auto dest: quotient_of_denom_pos quotient_of_div)
  with assms have n: "0 < n"
    by (simp add: zero_less_divide_iff)
  define bn bd where "bn = bitlen n" and "bd = bitlen d"
  have bn1: "1 \<le> bn" and bd1: "1 \<le> bd"
    using n d bitlen_eq_zero_iff [of n] bitlen_eq_zero_iff [of d] bitlen_nonneg [of n] bitlen_nonneg [of d]
    by (auto simp: bn_def bd_def)
  have ints: "2 ^ nat (bn - 1) \<le> n" "n < 2 ^ nat bn" "2 ^ nat (bd - 1) \<le> d" "d < 2 ^ nat bd"
    using bitlen_bounds [OF n] bitlen_bounds [OF d] by (simp_all add: bn_def bd_def)
  have lift_le: "(2::rat) ^ k \<le> of_int m" if "2 ^ k \<le> m" for k and m :: int
  proof -
    from that have "(of_int (2 ^ k) :: rat) \<le> of_int m" by (simp only: of_int_le_iff)
    then show ?thesis by simp
  qed
  have lift_less: "of_int m < (2::rat) ^ k" if "m < 2 ^ k" for k and m :: int
  proof -
    from that have "(of_int m :: rat) < of_int (2 ^ k)" by (simp only: of_int_less_iff)
    then show ?thesis by simp
  qed
  have N: "(2::rat) powi (bn - 1) \<le> of_int n" "of_int n < (2::rat) powi bn"
    using lift_le [OF ints(1)] lift_less [OF ints(2)] bn1 by (simp_all add: power_int_def)
  have D: "(2::rat) powi (bd - 1) \<le> of_int d" "of_int d < (2::rat) powi bd"
    using lift_le [OF ints(3)] lift_less [OF ints(4)] bd1 by (simp_all add: power_int_def)
  have dpos: "(0::rat) < of_int d" using d by simp
  have two_nz: "(2::rat) \<noteq> 0" by simp
  have lower: "(2::rat) powi (bn - bd - 1) \<le> q"
  proof -
    have "bn - bd - 1 = (bn - 1) - bd"
      by simp
    then have "(2::rat) powi (bn - bd - 1) = 2 powi (bn - 1) / 2 powi bd"
      by (simp only: power_int_diff [of "2::rat" "bn - 1" bd, OF disjI1, OF two_nz])
    also have "\<dots> \<le> of_int n / 2 powi bd"
      using N(1) by (simp add: divide_right_mono)
    also have "\<dots> \<le> of_int n / of_int d"
      using D(2) dpos n by (simp add: frac_le)
    finally show ?thesis by (simp add: q)
  qed
  have upper: "q < (2::rat) powi (bn - bd + 1)"
  proof -
    have "q = of_int n / of_int d" by (rule q)
    also have "\<dots> < 2 powi bn / of_int d"
      using N(2) dpos by (simp add: divide_strict_right_mono)
    also have "\<dots> \<le> 2 powi bn / 2 powi (bd - 1)"
      using D(1) by (simp add: frac_le)
    also have "\<dots> = 2 powi (bn - (bd - 1))"
      by (simp only: power_int_diff [of "2::rat" bn "bd - 1", OF disjI1, OF two_nz])
    also have "bn - (bd - 1) = bn - bd + 1"
      by simp
    finally show ?thesis .
  qed
  show ?thesis
  proof (cases "pow2 (bn - bd) \<le> q")
    case True
    then have "log2_floor q = bn - bd"
      by (simp add: log2_floor_def nd bn_def bd_def)
    with True upper show ?thesis by (simp add: pow2_powi)
  next
    case False
    then have "log2_floor q = bn - bd - 1"
      by (simp add: log2_floor_def nd bn_def bd_def)
    with False lower show ?thesis by (simp add: pow2_powi)
  qed
qed

lemma call_add_unfold:
  "call_add a b k w = ((case py_add a b of Inl e \<Rightarrow> Inl e | Inr t \<Rightarrow> py_mul t k), w)"
  by (simp add: call_add_def and_then_def binary_op_def split: sum.splits)

lemma add_example:
  "fst (call_add (PInt 1) (PInt 2) (PFloat (Float_fin False (3602879701896397 / 36028797018963968))) proc0) =
     Inr (PFloat (Float_fin False (1351079888211149 / 4503599627370496)))"
  unfolding call_add_unfold by code_simp

lemma py_add_ends:
  "(\<exists>v. py_add a b = Inr v) \<or> py_add a b = Inl (Exn ''OverflowError'') \<or>
   py_add a b = Inl (Exn ''TypeError'')"
  by (cases a; cases b) (simp_all add: float_of_int_def)

lemma py_mul_ends:
  "(\<exists>v. py_mul a b = Inr v) \<or> py_mul a b = Inl (Exn ''OverflowError'') \<or>
   py_mul a b = Inl (Exn ''TypeError'')"
  by (cases a; cases b) (simp_all add: float_of_int_def)

text \<open>
  C5. Two calls of \<open>add\<close> with the same arguments return the same value (or raise the
  same exception) whatever the state they are made in, a call leaves the state as it
  found it, and the value is that of the two operators applied to the arguments.
\<close>

theorem call_add_pure:
  "fst (call_add a b k w) = fst (call_add a b k w') \<and>
   snd (call_add a b k w) = w \<and>
   fst (call_add a b k w) = (case py_add a b of Inl e \<Rightarrow> Inl e | Inr t \<Rightarrow> py_mul t k)"
  by (simp add: call_add_unfold)

text \<open>
  C8, as amended. A call of \<open>add\<close> ends on every input, in one of three ways: it
  returns a value, it raises \<open>OverflowError\<close>, or it raises \<open>TypeError\<close>. On three
  \<open>int\<close>s it returns \<open>(a + b) * k\<close>. On two \<open>int\<close>s and a \<open>float\<close> it returns
  the rounded product when the magnitude of the sum is below \<open>2 ^ 1024 - 2 ^ 970\<close>, and
  raises \<open>OverflowError\<close> otherwise.
\<close>

theorem call_add_ends:
  "((\<exists>v. fst (call_add a b k w) = Inr v) \<or>
    fst (call_add a b k w) = Inl (Exn ''OverflowError'') \<or>
    fst (call_add a b k w) = Inl (Exn ''TypeError'')) \<and>
   fst (call_add (PInt x) (PInt y) (PInt n) w) = Inr (PInt (add x y n)) \<and>
   fst (call_add (PInt x) (PInt y) (PFloat f) w) =
     (if \<bar>x + y\<bar> < 2 ^ 1024 - 2 ^ 970
      then Inr (PFloat (float_mul (float_round (x + y < 0) (of_int \<bar>x + y\<bar>)) f))
      else Inl (Exn ''OverflowError''))"
proof -
  have "(\<exists>v. fst (call_add a b k w) = Inr v) \<or>
    fst (call_add a b k w) = Inl (Exn ''OverflowError'') \<or>
    fst (call_add a b k w) = Inl (Exn ''TypeError'')"
    using py_add_ends [of a b] py_mul_ends [of _ k]
    by (auto simp: call_add_unfold split: sum.splits)
  then show ?thesis
    by (simp add: call_add_unfold add_def float_of_int_def)
qed

text \<open>
  C8 as it was stated, that \<open>add\<close> is a total function of its three arguments, fails
  at the call \<open>add(10**309, 0, 1.0)\<close>, which raises \<open>OverflowError\<close> instead of
  returning.
\<close>

theorem call_add_overflow:
  "fst (call_add (PInt (10 ^ 309)) (PInt 0) (PFloat (Float_fin False 1)) proc0) =
     Inl (Exn ''OverflowError'')"
  by (simp add: call_add_unfold float_of_int_def)

end
